theory Spec2Isabelle
  imports Complex_Main "HOL-Library.AList" "HOL-Library.Sublist"
begin

section \<open>Python primitives used by fhir\_nlp\_service.py\<close>

text \<open>
  Strings are Python \<open>str\<close> values restricted to ASCII: a \<open>string\<close> is a list of
  8-bit characters, and the character classes below are the ASCII part of the ones
  Python uses (\<open>str.lower\<close>, \<open>str.isspace\<close>, the \<open>\s\<close> and \<open>\d\<close> classes of
  \<open>re\<close>, the digits \<open>int\<close> accepts).
\<close>

definition is_space :: "char \<Rightarrow> bool" where
  "is_space c = (let n = (of_char c :: nat) in (9 \<le> n \<and> n \<le> 13) \<or> (28 \<le> n \<and> n \<le> 32))"

definition is_digit :: "char \<Rightarrow> bool" where
  "is_digit c = (let n = (of_char c :: nat) in 48 \<le> n \<and> n \<le> 57)"

definition lower_char :: "char \<Rightarrow> char" where
  "lower_char c = (let n = (of_char c :: nat) in if 65 \<le> n \<and> n \<le> 90 then char_of (n + 32) else c)"

definition lower :: "string \<Rightarrow> string" where
  "lower s = map lower_char s"

fun startswith :: "string \<Rightarrow> string \<Rightarrow> bool" where
  "startswith s [] = True"
| "startswith [] (p # ps) = False"
| "startswith (c # cs) (p # ps) = (c = p \<and> startswith cs ps)"

text \<open>\<open>is_substring p s\<close> is Python's \<open>p in s\<close> on two strings.\<close>

fun is_substring :: "string \<Rightarrow> string \<Rightarrow> bool" where
  "is_substring p [] = (p = [])"
| "is_substring p (c # cs) = (startswith (c # cs) p \<or> is_substring p cs)"

text \<open>\<open>sep.join(xs)\<close>.\<close>

fun join :: "string \<Rightarrow> string list \<Rightarrow> string" where
  "join sep [] = []"
| "join sep [x] = x"
| "join sep (x # y # ys) = x @ sep @ join sep (y # ys)"

text \<open>\<open>s.split()\<close> with no argument: the maximal runs of non-whitespace characters.\<close>

fun split_words :: "string \<Rightarrow> string \<Rightarrow> string list" where
  "split_words cur [] = (if cur = [] then [] else [cur])"
| "split_words cur (c # cs) =
     (if is_space c then (if cur = [] then split_words [] cs else cur # split_words [] cs)
      else split_words (cur @ [c]) cs)"

definition py_split :: "string \<Rightarrow> string list" where
  "py_split s = split_words [] s"

text \<open>\<open>str(n)\<close> of an integer, as an f-string formats it: decimal, a minus sign
  when negative, no padding.\<close>

definition digit_char :: "nat \<Rightarrow> char" where
  "digit_char d = ''0123456789'' ! (d mod 10)"

function str_nat :: "nat \<Rightarrow> string" where
  "str_nat n = (if n < 10 then [digit_char n] else str_nat (n div 10) @ [digit_char (n mod 10)])"
  by pat_completeness auto
termination
  by (relation "measure (\<lambda>n. n)") auto

declare str_nat.simps [simp del]

definition str_int :: "int \<Rightarrow> string" where
  "str_int i = (if i < 0 then CHR ''-'' # str_nat (nat (- i)) else str_nat (nat i))"

text \<open>The exceptions the code can meet; a function that may raise returns
  \<open>py_error + 'a\<close>.\<close>

datatype py_error =
    ConnectionError
  | Timeout
  | HTTPError nat
  | JSONDecodeError
  | AttributeError
  | TypeError
  | ValueError
  | UnboundLocalError
  | OtherError string

text \<open>Truthiness of an \<open>Optional[int]\<close>: neither \<open>None\<close> nor zero.\<close>

definition truthy_int :: "int option \<Rightarrow> bool" where
  "truthy_int v = (case v of None \<Rightarrow> False | Some i \<Rightarrow> i \<noteq> 0)"

section \<open>Data model\<close>

datatype ResourceType = PATIENT | CONDITION | OBSERVATION | MEDICATION_REQUEST

fun resource_type_value :: "ResourceType \<Rightarrow> string" where
  "resource_type_value PATIENT = ''Patient''"
| "resource_type_value CONDITION = ''Condition''"
| "resource_type_value OBSERVATION = ''Observation''"
| "resource_type_value MEDICATION_REQUEST = ''MedicationRequest''"

text \<open>
  A value stored in a parameter dictionary (\<open>Dict[str, Any]\<close>): the query builder
  stores strings, the fetcher adds a list of include directives and an integer page
  size. A dictionary is an association list in insertion order; \<open>d[k] = v\<close> is
  \<open>AList.update k v d\<close>, which replaces in place or appends.
\<close>

datatype param_value = PStr string | PInt int | PList "string list"

type_synonym params = "(string \<times> param_value) list"

record FHIRQuery =
  resource_type :: ResourceType
  parameters :: params
  q_include :: "string list option"
  q_count :: "int option"

text \<open>An entry of \<open>condition_mappings\<close>, and a condition dictionary as
  \<open>_extract_conditions_with_spacy\<close> builds it.\<close>

record coding =
  code :: string
  system :: string
  display :: string

record condition = coding +
  cond_term :: string
  extraction_method :: string

text \<open>
  The age-filter dictionaries the extractor builds are a tagged union on their
  \<open>"operator"\<close> entry: \<open>">"\<close>, \<open>"<"\<close> and \<open>"="\<close> carry \<open>"value"\<close>, and \<open>"range"\<close>
  carries \<open>"min"\<close> and \<open>"max"\<close>. The last component is \<open>"extraction_method"\<close>.
\<close>

datatype age_filter =
    Greater int string
  | Less int string
  | Exactly int string
  | AgeRange int int string

fun operator :: "age_filter \<Rightarrow> string" where
  "operator (Greater v m) = ''>''"
| "operator (Less v m) = ''<''"
| "operator (Exactly v m) = ''=''"
| "operator (AgeRange lo hi m) = ''range''"

record number_info =
  num_value :: string
  numeric_value :: "int option"
  num_context :: string
  position :: nat
  dependencies :: "string list"

record entity_info =
  ent_info_text :: string
  ent_info_label :: string
  description :: "string option"

record entities =
  conditions :: "condition list"
  age_filters :: "age_filter list"
  gender :: "string option"
  intent :: string
  resource_types :: "string list"
  extracted_numbers :: "number_info list"
  extracted_entities :: "entity_info list"

section \<open>Query builder\<close>

text \<open>
  \<open>build_fhir_query\<close> has no reference-year parameter: each age branch reads
  \<open>datetime.now().year\<close>. The embedding makes that read an input, \<open>current_year\<close>: the
  year the wall clock shows when the function is called. The two branches on the intent
  are written out as the source has them. The chain of comparisons on
  \<open>age_filter["operator"]\<close> is the case distinction on the filter; \<open>=\<close> has no branch.
\<close>

definition build_fhir_query :: "int \<Rightarrow> entities \<Rightarrow> FHIRQuery" where
  "build_fhir_query current_year ents =
    (if intent ents = ''count'' then
       (let parameters0 = ([] :: params);
            parameters1 =
              (if conditions ents \<noteq> [] then
                 AList.update ''_has:Condition:subject:code''
                   (PStr (join '','' (map code (conditions ents)))) parameters0
               else parameters0);
            parameters2 =
              (case age_filters ents of
                 [] \<Rightarrow> parameters1
               | age_filter # later \<Rightarrow>
                   (case age_filter of
                      Greater v m \<Rightarrow>
                        (let birth_year = current_year - v in
                         AList.update ''birthdate''
                           (PStr (''le'' @ str_int birth_year @ ''-12-31'')) parameters1)
                    | Less v m \<Rightarrow>
                        (let birth_year = current_year - v in
                         AList.update ''birthdate''
                           (PStr (''ge'' @ str_int birth_year @ ''-01-01'')) parameters1)
                    | AgeRange lo hi m \<Rightarrow>
                        (let max_birth_year = current_year - lo;
                             min_birth_year = current_year - hi in
                         AList.update ''birthdate''
                           (PStr (''ge'' @ str_int min_birth_year @ ''-01-01&birthdate=le''
                                   @ str_int max_birth_year @ ''-12-31'')) parameters1)
                    | Exactly v m \<Rightarrow> parameters1));
            parameters3 =
              (case gender ents of
                 None \<Rightarrow> parameters2
               | Some g \<Rightarrow>
                   if g \<noteq> [] then AList.update ''gender'' (PStr g) parameters2
                   else parameters2)
        in \<lparr> resource_type = PATIENT,
             parameters = parameters3,
             q_include = (if conditions ents \<noteq> [] then Some [''Condition:subject''] else None),
             q_count = Some 100 \<rparr>)
     else
       (let parameters0 = ([] :: params);
            parameters1 =
              (if conditions ents \<noteq> [] then
                 AList.update ''_has:Condition:subject:code''
                   (PStr (join '','' (map code (conditions ents)))) parameters0
               else parameters0);
            parameters2 =
              (case age_filters ents of
                 [] \<Rightarrow> parameters1
               | age_filter # later \<Rightarrow>
                   (case age_filter of
                      Greater v m \<Rightarrow>
                        (let birth_year = current_year - v in
                         AList.update ''birthdate''
                           (PStr (''le'' @ str_int birth_year @ ''-12-31'')) parameters1)
                    | Less v m \<Rightarrow>
                        (let birth_year = current_year - v in
                         AList.update ''birthdate''
                           (PStr (''ge'' @ str_int birth_year @ ''-01-01'')) parameters1)
                    | AgeRange lo hi m \<Rightarrow>
                        (let max_birth_year = current_year - lo;
                             min_birth_year = current_year - hi in
                         AList.update ''birthdate''
                           (PStr (''ge'' @ str_int min_birth_year @ ''-01-01&birthdate=le''
                                   @ str_int max_birth_year @ ''-12-31'')) parameters1)
                    | Exactly v m \<Rightarrow> parameters1));
            parameters3 =
              (case gender ents of
                 None \<Rightarrow> parameters2
               | Some g \<Rightarrow>
                   if g \<noteq> [] then AList.update ''gender'' (PStr g) parameters2
                   else parameters2)
        in \<lparr> resource_type = PATIENT,
             parameters = parameters3,
             q_include = (if conditions ents \<noteq> [] then Some [''Condition:subject''] else None),
             q_count = Some 100 \<rparr>))"

section \<open>The annotated document\<close>

text \<open>
  The spaCy pipeline is an external collaborator. The code reads, of each token, its
  surface text, its lemma, its part-of-speech tag, the \<open>like_num\<close> flag and the texts
  of its syntactic children; of the document, the tokens, the text and the named-entity
  spans. The pipeline itself (\<open>self.nlp\<close>) and \<open>spacy.explain\<close> are parameters.
\<close>

record token =
  tok_text :: string
  tok_lemma :: string
  tok_pos :: string
  like_num :: bool
  children :: "string list"

record span =
  ent_text :: string
  ent_label :: string

record doc =
  tokens :: "token list"
  doc_text :: string
  ents :: "span list"

section \<open>Entity extractor\<close>

subsection \<open>Intent\<close>

definition search_verbs :: "string set" where
  "search_verbs = {''show'', ''list'', ''find'', ''get'', ''display'', ''retrieve'', ''fetch''}"

definition count_verbs :: "string set" where
  "count_verbs = {''count'', ''number''}"

definition aggregate_verbs :: "string set" where
  "aggregate_verbs = {''average'', ''mean'', ''median'', ''sum'', ''total''}"

text \<open>The token loop of \<open>_determine_intent_with_spacy\<close>; \<open>many\<close> is the value of
  \<open>"many" in [t.lemma_ for t in doc]\<close>, which the loop recomputes over the whole
  document. \<open>None\<close>: the loop ended without returning.\<close>

fun intent_scan :: "bool \<Rightarrow> token list \<Rightarrow> string option" where
  "intent_scan many [] = None"
| "intent_scan many (t # ts) =
     (if tok_pos t = ''VERB''
         \<or> tok_lemma t \<in> search_verbs \<union> count_verbs \<union> aggregate_verbs then
        (if tok_lemma t \<in> search_verbs then Some ''search''
         else if tok_lemma t \<in> count_verbs \<or> many then Some ''count''
         else if tok_lemma t \<in> aggregate_verbs then Some ''aggregate''
         else intent_scan many ts)
      else intent_scan many ts)"

definition phrase_intent :: "string \<Rightarrow> string" where
  "phrase_intent query_text =
     (if list_ex (\<lambda>phrase. is_substring phrase query_text) [''how many'', ''number of'']
      then ''count''
      else if list_ex (\<lambda>phrase. is_substring phrase query_text)
                [''average'', ''mean'', ''median'']
      then ''aggregate''
      else ''search'')"

definition determine_intent_with_spacy :: "doc \<Rightarrow> string" where
  "determine_intent_with_spacy d =
     (case intent_scan (''many'' \<in> set (map tok_lemma (tokens d))) (tokens d) of
        Some i \<Rightarrow> i
      | None \<Rightarrow> phrase_intent (doc_text d))"

subsection \<open>Numeric mentions\<close>

text \<open>
  \<open>int(text)\<close> on a string, \<open>None\<close> for \<open>ValueError\<close>. On an ASCII string the
  whitespace stripped at both ends is the C locale's (tab to carriage return, and the
  space; not the separators \<open>0x1C\<close> to \<open>0x1F\<close> that \<open>str.isspace\<close> accepts). A sign may
  lead, and the digits may be grouped by single underscores. A literal of more than
  \<open>int_max_str_digits\<close> digits is refused (CPython's default limit, 4300; underscores
  and the sign are not counted, leading zeros are).
\<close>

definition is_c_space :: "char \<Rightarrow> bool" where
  "is_c_space c = (let n = (of_char c :: nat) in (9 \<le> n \<and> n \<le> 13) \<or> n = 32)"

definition int_max_str_digits :: nat where
  "int_max_str_digits = 4300"

fun digit_groups :: "string \<Rightarrow> bool" where
  "digit_groups [] = False"
| "digit_groups [c] = is_digit c"
| "digit_groups (c # d # r) =
     (is_digit c \<and> (if d = CHR ''_'' then digit_groups r else digit_groups (d # r)))"

definition digits_value :: "string \<Rightarrow> nat" where
  "digits_value s = foldl (\<lambda>acc c. 10 * acc + (of_char c - 48)) 0 s"

definition strip :: "string \<Rightarrow> string" where
  "strip s = rev (dropWhile is_c_space (rev (dropWhile is_c_space s)))"

definition py_int :: "string \<Rightarrow> int option" where
  "py_int s =
     (let t = strip s;
          negative = (t \<noteq> [] \<and> hd t = CHR ''-'');
          body = (if t \<noteq> [] \<and> (hd t = CHR ''-'' \<or> hd t = CHR ''+'') then tl t else t);
          ds = filter (\<lambda>c. c \<noteq> CHR ''_'') body
      in if digit_groups body \<and> length ds \<le> int_max_str_digits then
           (let n = int (digits_value ds)
            in Some (if negative then - n else n))
         else None)"

definition word_to_num :: "(string \<times> int) list" where
  "word_to_num =
     [(''one'', 1), (''two'', 2), (''three'', 3), (''four'', 4), (''five'', 5),
      (''six'', 6), (''seven'', 7), (''eight'', 8), (''nine'', 9), (''ten'', 10),
      (''twenty'', 20), (''thirty'', 30), (''forty'', 40), (''fifty'', 50),
      (''sixty'', 60), (''seventy'', 70), (''eighty'', 80), (''ninety'', 90)]"

definition convert_to_number :: "string \<Rightarrow> int option" where
  "convert_to_number txt =
     (case py_int txt of
        Some n \<Rightarrow> Some n
      | None \<Rightarrow> map_of word_to_num (lower txt))"

definition number_at :: "token list \<Rightarrow> nat \<Rightarrow> number_info" where
  "number_at toks i =
     (let start_idx = i - 2;
          end_idx = min (length toks) (i + 3);
          context_words = map (\<lambda>j. tok_text (toks ! j)) (filter (\<lambda>j. j \<noteq> i) [start_idx ..< end_idx])
      in \<lparr> num_value = tok_text (toks ! i),
           numeric_value = convert_to_number (tok_text (toks ! i)),
           num_context = join '' '' context_words,
           position = i,
           dependencies = children (toks ! i) \<rparr>)"

definition extract_numbers_with_context :: "doc \<Rightarrow> number_info list" where
  "extract_numbers_with_context d =
     map (number_at (tokens d))
       (filter (\<lambda>i. like_num (tokens d ! i) \<or> tok_pos (tokens d ! i) = ''NUM'')
          [0 ..< length (tokens d)])"

subsection \<open>Conditions\<close>

definition condition_mappings :: "(string \<times> coding) list" where
  "condition_mappings =
     [(''diabetes'', \<lparr> code = ''44054006'', system = ''http://snomed.info/sct'',
                       display = ''Diabetes mellitus'' \<rparr>),
      (''diabetic'', \<lparr> code = ''44054006'', system = ''http://snomed.info/sct'',
                       display = ''Diabetes mellitus'' \<rparr>),
      (''hypertension'', \<lparr> code = ''38341003'', system = ''http://snomed.info/sct'',
                           display = ''Hypertension'' \<rparr>),
      (''heart disease'', \<lparr> code = ''56265001'', system = ''http://snomed.info/sct'',
                            display = ''Heart disease'' \<rparr>),
      (''asthma'', \<lparr> code = ''195967001'', system = ''http://snomed.info/sct'',
                     display = ''Asthma'' \<rparr>),
      (''depression'', \<lparr> code = ''35489007'', system = ''http://snomed.info/sct'',
                         display = ''Depressive disorder'' \<rparr>),
      (''cancer'', \<lparr> code = ''363346000'', system = ''http://snomed.info/sct'',
                     display = ''Malignant neoplastic disease'' \<rparr>)]"

definition make_condition :: "string \<Rightarrow> coding \<Rightarrow> string \<Rightarrow> condition" where
  "make_condition t m method =
     \<lparr> code = code m, system = system m, display = display m,
       cond_term = t, extraction_method = method \<rparr>"

text \<open>
  The inner loop over the dictionary, for one token, in dictionary order. Both
  branches end in \<open>break\<close>: the first entry that matches is appended and the entries
  after it are not looked at for this token.
\<close>

fun match_token :: "string list \<Rightarrow> token \<Rightarrow> (string \<times> coding) list \<Rightarrow> condition option" where
  "match_token doc_lemmas t [] = None"
| "match_token doc_lemmas t ((cond, m) # rest) =
     (let condition_words = py_split cond in
      if length condition_words > 1 then
        (if list_all (\<lambda>w. w \<in> set doc_lemmas) condition_words
         then Some (make_condition cond m ''spacy_lemma_multiword'')
         else match_token doc_lemmas t rest)
      else if tok_lemma t = cond \<or> tok_text t = cond
        then Some (make_condition cond m ''spacy_lemma'')
        else match_token doc_lemmas t rest)"

definition ner_condition :: "span \<Rightarrow> condition list" where
  "ner_condition ent =
     (if ent_label ent \<in> {''DISEASE'', ''SYMPTOM''} then
        (case map_of condition_mappings (lower (ent_text ent)) of
           Some m \<Rightarrow> [make_condition (lower (ent_text ent)) m ''spacy_ner'']
         | None \<Rightarrow> [])
      else [])"

text \<open>The final loop: keep a condition when its code has not been seen.\<close>

fun remove_duplicates :: "string set \<Rightarrow> condition list \<Rightarrow> condition list" where
  "remove_duplicates seen [] = []"
| "remove_duplicates seen (c # cs) =
     (if code c \<notin> seen then c # remove_duplicates (insert (code c) seen) cs
      else remove_duplicates seen cs)"

definition all_condition_matches :: "doc \<Rightarrow> condition list" where
  "all_condition_matches d =
     List.map_filter
       (\<lambda>t. match_token (map tok_lemma (tokens d)) t condition_mappings) (tokens d)
     @ concat (map ner_condition (ents d))"

definition extract_conditions_with_spacy :: "doc \<Rightarrow> condition list" where
  "extract_conditions_with_spacy d = remove_duplicates {} (all_condition_matches d)"

subsection \<open>Age filters\<close>

definition age_patterns :: "(string \<times> string) list" where
  "age_patterns =
     [(''over'', ''>''), (''above'', ''>''), (''under'', ''<''), (''below'', ''<''),
      (''exactly'', ''=''), (''between'', ''range'')]"

text \<open>One numeric mention of the context loop: the filters it appends (none or one).\<close>

definition context_filter :: "number_info list \<Rightarrow> number_info \<Rightarrow> age_filter list" where
  "context_filter numbers_with_context number_info =
     (case numeric_value number_info of
        None \<Rightarrow> []
      | Some v \<Rightarrow>
          if v = 0 then []
          else
            (let ctx = lower (num_context number_info) in
             if list_ex (\<lambda>w. is_substring w ctx)
                  [''over'', ''above'', ''more than'', ''greater'']
             then [Greater v ''spacy_context'']
             else if list_ex (\<lambda>w. is_substring w ctx)
                  [''under'', ''below'', ''less than'', ''younger'']
             then [Less v ''spacy_context'']
             else if is_substring ''between'' ctx then
               (case find (\<lambda>other_number. other_number \<noteq> number_info
                              \<and> truthy_int (numeric_value other_number))
                       numbers_with_context of
                  None \<Rightarrow> []
                | Some other_number \<Rightarrow>
                    (case numeric_value other_number of
                       None \<Rightarrow> []
                     | Some w \<Rightarrow> [AgeRange (min v w) (max v w) ''spacy_context_range'']))
             else []))"

text \<open>
  The two patterns of the fallback. \<open>re.search\<close> tries each start position from the
  left. In both patterns a greedy \<open>\s+\<close> or \<open>\d+\<close> is followed by a character of
  another class, so giving characters back never helps: a match, if any, takes the
  longest run of whitespace and of digits.
\<close>

definition spaces1 :: "string \<Rightarrow> string option" where
  "spaces1 s = (if takeWhile is_space s = [] then None else Some (dropWhile is_space s))"

definition digits1 :: "string \<Rightarrow> (string \<times> string) option" where
  "digits1 s =
     (if takeWhile is_digit s = [] then None
      else Some (takeWhile is_digit s, dropWhile is_digit s))"

definition literal :: "string \<Rightarrow> string \<Rightarrow> string option" where
  "literal k s = (if startswith s k then Some (drop (length k) s) else None)"

text \<open>\<open>(over|above|under|below|exactly)\s+(\d+)\<close> at the start of \<open>s\<close>: groups 1 and 2.\<close>

fun match_keyword :: "string list \<Rightarrow> string \<Rightarrow> (string \<times> string) option" where
  "match_keyword [] s = None"
| "match_keyword (k # ks) s =
     (case literal k s of
        None \<Rightarrow> match_keyword ks s
      | Some r1 \<Rightarrow>
          (case spaces1 r1 of
             None \<Rightarrow> match_keyword ks s
           | Some r2 \<Rightarrow>
               (case digits1 r2 of
                  None \<Rightarrow> match_keyword ks s
                | Some (ds, r3) \<Rightarrow> Some (k, ds))))"

text \<open>\<open>between\s+(\d+)\s+and\s+(\d+)\<close> at the start of \<open>s\<close>: groups 1 and 2.\<close>

definition match_between :: "string \<Rightarrow> (string \<times> string) option" where
  "match_between s =
     (case literal ''between'' s of None \<Rightarrow> None | Some r1 \<Rightarrow>
      (case spaces1 r1 of None \<Rightarrow> None | Some r2 \<Rightarrow>
       (case digits1 r2 of None \<Rightarrow> None | Some (a, r3) \<Rightarrow>
        (case spaces1 r3 of None \<Rightarrow> None | Some r4 \<Rightarrow>
         (case literal ''and'' r4 of None \<Rightarrow> None | Some r5 \<Rightarrow>
          (case spaces1 r5 of None \<Rightarrow> None | Some r6 \<Rightarrow>
           (case digits1 r6 of None \<Rightarrow> None | Some (b, r7) \<Rightarrow> Some (a, b))))))))"

fun re_search :: "(string \<Rightarrow> 'a option) \<Rightarrow> string \<Rightarrow> 'a option" where
  "re_search m [] = m []"
| "re_search m (c # cs) = (case m (c # cs) of Some r \<Rightarrow> Some r | None \<Rightarrow> re_search m cs)"

text \<open>The dictionary \<open>{"operator": op, "value": v, ...}\<close> as a filter; the operators
  \<open>age_patterns\<close> gives for the five keywords of the pattern are \<open>>\<close>, \<open><\<close> and \<open>=\<close>.\<close>

definition value_filter :: "string \<Rightarrow> int \<Rightarrow> string \<Rightarrow> age_filter list" where
  "value_filter op v method =
     (if op = ''>'' then [Greater v method]
      else if op = ''<'' then [Less v method]
      else if op = ''='' then [Exactly v method]
      else [])"

text \<open>\<open>int(group)\<close> in the fallback: nothing catches its \<open>ValueError\<close>.\<close>

definition int_of_group :: "string \<Rightarrow> py_error + int" where
  "int_of_group g = (case py_int g of None \<Rightarrow> Inl ValueError | Some n \<Rightarrow> Inr n)"

text \<open>The first pattern and the filter appended for it, then the second.\<close>

definition regex_age :: "string \<Rightarrow> py_error + age_filter list" where
  "regex_age txt =
     (case re_search (match_keyword [''over'', ''above'', ''under'', ''below'', ''exactly'']) txt of
        None \<Rightarrow> Inr []
      | Some (kw, ds) \<Rightarrow>
          (case int_of_group ds of
             Inl e \<Rightarrow> Inl e
           | Inr age \<Rightarrow>
               Inr (value_filter (case map_of age_patterns kw of Some op \<Rightarrow> op | None \<Rightarrow> ''>'')
                      age ''regex_fallback'')))"

definition regex_range :: "string \<Rightarrow> py_error + age_filter list" where
  "regex_range txt =
     (case re_search match_between txt of
        None \<Rightarrow> Inr []
      | Some (a, b) \<Rightarrow>
          (case int_of_group a of
             Inl e \<Rightarrow> Inl e
           | Inr lo \<Rightarrow>
               (case int_of_group b of
                  Inl e \<Rightarrow> Inl e
                | Inr hi \<Rightarrow> Inr [AgeRange lo hi ''regex_fallback''])))"

definition regex_fallback :: "string \<Rightarrow> py_error + age_filter list" where
  "regex_fallback txt =
     (case regex_age txt of
        Inl e \<Rightarrow> Inl e
      | Inr fs1 \<Rightarrow>
          (case regex_range txt of
             Inl e \<Rightarrow> Inl e
           | Inr fs2 \<Rightarrow> Inr (fs1 @ fs2)))"

definition extract_age_filters_with_spacy ::
  "doc \<Rightarrow> number_info list \<Rightarrow> py_error + age_filter list" where
  "extract_age_filters_with_spacy d numbers_with_context =
     (let age_filters0 = concat (map (context_filter numbers_with_context) numbers_with_context)
      in if age_filters0 = [] then regex_fallback (doc_text d) else Inr age_filters0)"

subsection \<open>Gender\<close>

definition male_indicators :: "string set" where
  "male_indicators = {''male'', ''man'', ''men'', ''boy'', ''gentleman'', ''guy''}"

definition female_indicators :: "string set" where
  "female_indicators = {''female'', ''woman'', ''women'', ''girl'', ''lady'', ''gal''}"

fun gender_scan :: "token list \<Rightarrow> string option" where
  "gender_scan [] = None"
| "gender_scan (t # ts) =
     (if tok_lemma t \<in> male_indicators \<or> tok_text t \<in> male_indicators then Some ''male''
      else if tok_lemma t \<in> female_indicators \<or> tok_text t \<in> female_indicators
        then Some ''female''
      else gender_scan ts)"

definition extract_gender_with_spacy :: "doc \<Rightarrow> string option" where
  "extract_gender_with_spacy d = gender_scan (tokens d)"

subsection \<open>The extractor\<close>

text \<open>\<open>extract_entities\<close> raises when the regex fallback does.\<close>

definition extract_entities ::
  "(string \<Rightarrow> doc) \<Rightarrow> (string \<Rightarrow> string option) \<Rightarrow> string \<Rightarrow> py_error + entities" where
  "extract_entities nlp explain query =
     (let d = nlp (lower query);
          numbers_with_context = extract_numbers_with_context d;
          conds = extract_conditions_with_spacy d
      in case extract_age_filters_with_spacy d numbers_with_context of
           Inl e \<Rightarrow> Inl e
         | Inr filters \<Rightarrow>
             Inr \<lparr> conditions = conds,
                   age_filters = filters,
                   gender = extract_gender_with_spacy d,
                   intent = determine_intent_with_spacy d,
                   resource_types = (if conds \<noteq> [] then [''Condition''] else []) @ [''Patient''],
                   extracted_numbers = numbers_with_context,
                   extracted_entities =
                     map (\<lambda>ent. \<lparr> ent_info_text = ent_text ent, ent_info_label = ent_label ent,
                                  description = explain (ent_label ent) \<rparr>) (ents d) \<rparr>)"

section \<open>Result fetcher\<close>

subsection \<open>JSON values and the Python operations the fetcher applies to them\<close>

text \<open>
  A decoded payload (\<open>response.json()\<close>). An object is an association list. Of a number
  the code reads only whether it is zero; a float is kept by its value.
\<close>

datatype json =
    JNull
  | JBool bool
  | JInt int
  | JFloat rat
  | JStr string
  | JList "json list"
  | JDict "(string \<times> json) list"

text \<open>The subclasses of \<open>requests.exceptions.RequestException\<close>: the first handler.\<close>

fun is_request_exception :: "py_error \<Rightarrow> bool" where
  "is_request_exception ConnectionError = True"
| "is_request_exception Timeout = True"
| "is_request_exception (HTTPError st) = True"
| "is_request_exception JSONDecodeError = True"
| "is_request_exception e = False"

fun truthy :: "json \<Rightarrow> bool" where
  "truthy JNull = False"
| "truthy (JBool b) = b"
| "truthy (JInt i) = (i \<noteq> 0)"
| "truthy (JFloat r) = (r \<noteq> 0)"
| "truthy (JStr s) = (s \<noteq> [])"
| "truthy (JList xs) = (xs \<noteq> [])"
| "truthy (JDict kvs) = (kvs \<noteq> [])"

text \<open>\<open>obj.get(key, default)\<close>: only a \<open>dict\<close> has the method.\<close>

fun py_get :: "json \<Rightarrow> string \<Rightarrow> json \<Rightarrow> py_error + json" where
  "py_get (JDict kvs) k dflt = Inr (case map_of kvs k of Some v \<Rightarrow> v | None \<Rightarrow> dflt)"
| "py_get j k dflt = Inl AttributeError"

text \<open>The values a \<open>for\<close> loop over \<open>obj\<close> runs through: the elements of a list, the
  keys of a \<open>dict\<close>, the characters of a string; anything else is not iterable.\<close>

fun py_iter :: "json \<Rightarrow> py_error + json list" where
  "py_iter (JList xs) = Inr xs"
| "py_iter (JDict kvs) = Inr (map (\<lambda>kv. JStr (fst kv)) kvs)"
| "py_iter (JStr s) = Inr (map (\<lambda>c. JStr [c]) s)"
| "py_iter j = Inl TypeError"

text \<open>\<open>key in obj\<close> for a string \<open>key\<close>: a key of a \<open>dict\<close>, an element of a list, a
  substring of a string.\<close>

fun py_in :: "string \<Rightarrow> json \<Rightarrow> py_error + bool" where
  "py_in k (JDict kvs) = Inr (k \<in> set (map fst kvs))"
| "py_in k (JList xs) = Inr (JStr k \<in> set xs)"
| "py_in k (JStr s) = Inr (is_substring k s)"
| "py_in k j = Inl TypeError"

subsection \<open>The remote collection\<close>

text \<open>
  \<open>self.session.get\<close> is the only effect of the fetcher. A request is the URL and the
  \<open>params\<close> argument (\<open>None\<close> when the call passes none). The transport answers the
  \<open>n\<close>-th request of a fetch (counted from 0): the call raises, or it returns a
  response with a status code and a body, \<open>None\<close> when the body does not decode as JSON.
\<close>

datatype request = Get json "params option"

datatype response = Raises py_error | Response nat "json option"

type_synonym transport = "nat \<Rightarrow> request \<Rightarrow> response"

record fetch_result =
  res_total :: json
  resources :: "json list"
  last_bundle :: json
  res_pages_fetched :: "int option"
  error :: "string option"

record loop_state =
  all_resources :: "json list"
  total_count :: json
  current_url :: json
  current_params :: params
  pages_fetched :: int
  fhir_bundle :: "json option"

subsection \<open>\<open>fetch_real_fhir_data\<close>\<close>

definition generate_fallback_results :: "FHIRQuery \<Rightarrow> fetch_result" where
  "generate_fallback_results query =
     \<lparr> res_total = JInt 0,
       resources = [],
       last_bundle = JDict [(''resourceType'', JStr ''Bundle''), (''type'', JStr ''searchset''),
                            (''total'', JInt 0), (''entry'', JList [])],
       res_pages_fetched = None,
       error = Some ''Unable to fetch data from FHIR server. This is fallback data.'' \<rparr>"

text \<open>The loop over \<open>query._include\<close>.\<close>

definition add_include :: "string \<Rightarrow> params \<Rightarrow> py_error + params" where
  "add_include inc ps =
     (let ps1 = (if ''_include'' \<notin> set (map fst ps)
                 then AList.update ''_include'' (PList []) ps else ps);
          ps2 = (case map_of ps1 ''_include'' of
                   Some (PStr s) \<Rightarrow> AList.update ''_include'' (PList [s]) ps1
                 | _ \<Rightarrow> ps1)
      in case map_of ps2 ''_include'' of
           Some (PList l) \<Rightarrow> Inr (AList.update ''_include'' (PList (l @ [inc])) ps2)
         | _ \<Rightarrow> Inl AttributeError)"

fun add_includes :: "string list \<Rightarrow> params \<Rightarrow> py_error + params" where
  "add_includes [] ps = Inr ps"
| "add_includes (inc # rest) ps =
     (case add_include inc ps of Inl e \<Rightarrow> Inl e | Inr ps' \<Rightarrow> add_includes rest ps')"

definition initial_params :: "FHIRQuery \<Rightarrow> py_error + params" where
  "initial_params query =
     (let ps0 = fold (\<lambda>kv ps. AList.update (fst kv) (snd kv) ps) (parameters query) []
      in case (case q_include query of
                 None \<Rightarrow> Inr ps0
               | Some incs \<Rightarrow> add_includes incs ps0) of
           Inl e \<Rightarrow> Inl e
         | Inr ps1 \<Rightarrow>
             Inr (case q_count query of
                    None \<Rightarrow> ps1
                  | Some c \<Rightarrow>
                      if c \<noteq> 0 then AList.update ''_count'' (PInt (min c 50)) ps1 else ps1))"

text \<open>The list comprehension over the entries of a page: what one entry contributes
  (\<open>None\<close> when the filter drops it), and the loop.\<close>

definition entry_resource :: "json \<Rightarrow> py_error + json option" where
  "entry_resource entry =
     (case py_in ''resource'' entry of
        Inl e \<Rightarrow> Inl e
      | Inr has \<Rightarrow>
          if has then
            (case py_get entry ''resource'' (JDict []) of
               Inl e \<Rightarrow> Inl e
             | Inr r \<Rightarrow> Inr (Some r))
          else Inr None)"

fun page_resources :: "json list \<Rightarrow> py_error + json list" where
  "page_resources [] = Inr []"
| "page_resources (entry # rest) =
     (case entry_resource entry of
        Inl e \<Rightarrow> Inl e
      | Inr r \<Rightarrow>
          (case page_resources rest of
             Inl e \<Rightarrow> Inl e
           | Inr rs \<Rightarrow> Inr (case r of None \<Rightarrow> rs | Some x \<Rightarrow> x # rs)))"

text \<open>\<open>_get_next_link\<close>: what one link decides (\<open>None\<close>: its relation is not
  \<open>next\<close>, the loop goes on), and the loop.\<close>

definition link_url :: "json \<Rightarrow> py_error + json option" where
  "link_url link =
     (case py_get link ''relation'' JNull of
        Inl e \<Rightarrow> Inl e
      | Inr rel \<Rightarrow>
          if rel = JStr ''next'' then
            (case py_get link ''url'' JNull of Inl e \<Rightarrow> Inl e | Inr u \<Rightarrow> Inr (Some u))
          else Inr None)"

fun next_link_scan :: "json list \<Rightarrow> py_error + json" where
  "next_link_scan [] = Inr JNull"
| "next_link_scan (link # rest) =
     (case link_url link of
        Inl e \<Rightarrow> Inl e
      | Inr (Some u) \<Rightarrow> Inr u
      | Inr None \<Rightarrow> next_link_scan rest)"

definition get_next_link :: "json \<Rightarrow> py_error + json" where
  "get_next_link b =
     (case py_get b ''link'' (JList []) of
        Inl e \<Rightarrow> Inl e
      | Inr links \<Rightarrow>
          (case py_iter links of Inl e \<Rightarrow> Inl e | Inr ls \<Rightarrow> next_link_scan ls))"

text \<open>The request an iteration issues: the first one carries the parameters.\<close>

definition next_request :: "loop_state \<Rightarrow> request" where
  "next_request s =
     (if pages_fetched s = 0 then Get (current_url s) (Some (current_params s))
      else Get (current_url s) None)"

text \<open>How one iteration of the \<open>while\<close> loop ends: it raises, it returns the
  single-record result, it goes on with the \<open>next\<close> link, or it breaks.\<close>

datatype step = Raise py_error | Return fetch_result | Continue loop_state | Break loop_state

definition single_resource :: "json \<Rightarrow> fetch_result" where
  "single_resource b =
     \<lparr> res_total = JInt 1,
       resources = [b],
       last_bundle = JDict [(''resourceType'', JStr ''Bundle''),
                            (''entry'', JList [JDict [(''resource'', b)]])],
       res_pages_fetched = None,
       error = None \<rparr>"

text \<open>
  The loop body from the decoded payload on. Where \<open>total\<close> is read the payload is
  known to be a \<open>dict\<close>, so \<open>get\<close> with the running total as default is the test
  \<open>"total" in fhir_bundle\<close> followed by the assignment.
\<close>

definition process_bundle :: "loop_state \<Rightarrow> json \<Rightarrow> step" where
  "process_bundle s b =
     (case py_get b ''resourceType'' JNull of
        Inl e \<Rightarrow> Raise e
      | Inr rt \<Rightarrow>
          if rt \<noteq> JStr ''Bundle'' then Return (single_resource b)
          else
            (case py_get b ''entry'' (JList []) of
               Inl e \<Rightarrow> Raise e
             | Inr entries \<Rightarrow>
                 (case py_iter entries of
                    Inl e \<Rightarrow> Raise e
                  | Inr es \<Rightarrow>
                      (case page_resources es of
                         Inl e \<Rightarrow> Raise e
                       | Inr prs \<Rightarrow>
                           (case get_next_link b of
                              Inl e \<Rightarrow> Raise e
                            | Inr next_url \<Rightarrow>
                                (let s1 = s\<lparr> all_resources := all_resources s @ prs,
                                             total_count :=
                                               (case py_get b ''total'' (total_count s) of
                                                  Inr t \<Rightarrow> t
                                                | Inl e \<Rightarrow> total_count s),
                                             fhir_bundle := Some b \<rparr>
                                 in if truthy next_url then
                                      Continue (s1\<lparr> current_url := next_url,
                                                    current_params := [],
                                                    pages_fetched := pages_fetched s + 1 \<rparr>)
                                    else Break s1))))))"

text \<open>\<open>session.get\<close>, \<open>raise_for_status\<close> (which rejects the statuses 400 to 599) and
  \<open>response.json()\<close>, then the rest of the body.\<close>

definition handle_response :: "loop_state \<Rightarrow> response \<Rightarrow> step" where
  "handle_response s r =
     (case r of
        Raises e \<Rightarrow> Raise e
      | Response status body \<Rightarrow>
          if 400 \<le> status \<and> status < 600 then Raise (HTTPError status)
          else (case body of
                  None \<Rightarrow> Raise JSONDecodeError
                | Some b \<Rightarrow> process_bundle s b))"

text \<open>The \<open>return\<close> after the loop. \<open>fhir_bundle\<close> is unbound when the loop body never
  ran.\<close>

definition finish :: "loop_state \<Rightarrow> py_error + fetch_result" where
  "finish s =
     (case fhir_bundle s of
        None \<Rightarrow> Inl UnboundLocalError
      | Some b \<Rightarrow>
          Inr \<lparr> res_total = (if truthy (total_count s) then total_count s
                         else JInt (int (length (all_resources s)))),
                resources = all_resources s,
                last_bundle = b,
                res_pages_fetched = Some (pages_fetched s + 1),
                error = None \<rparr>)"

lemma handle_response_Continue:
  "handle_response s r = Continue s' \<Longrightarrow> pages_fetched s' = pages_fetched s + 1"
  by (auto simp: handle_response_def process_bundle_def Let_def
           split: response.splits option.splits sum.splits if_splits)

text \<open>
  The \<open>while\<close> loop. The list holds the requests issued so far; the result is
  that list at the end and what the body of the \<open>try\<close> block does: raise or return.
\<close>

function fetch_loop ::
  "transport \<Rightarrow> int \<Rightarrow> loop_state \<Rightarrow> request list \<Rightarrow> request list \<times> (py_error + fetch_result)" where
  "fetch_loop tr max_pages s issued =
     (if truthy (current_url s) \<and> pages_fetched s < max_pages then
        (case handle_response s (tr (length issued) (next_request s)) of
           Raise e \<Rightarrow> (issued @ [next_request s], Inl e)
         | Return r \<Rightarrow> (issued @ [next_request s], Inr r)
         | Continue s' \<Rightarrow> fetch_loop tr max_pages s' (issued @ [next_request s])
         | Break s' \<Rightarrow> (issued @ [next_request s], finish s'))
      else (issued, finish s))"
  by pat_completeness auto
termination
  by (relation "measure (\<lambda>(tr, max_pages, s, issued). nat (max_pages - pages_fetched s))")
     (auto dest: handle_response_Continue)

declare fetch_loop.simps [simp del]

text \<open>The local variables when the loop is entered.\<close>

definition initial_state :: "string \<Rightarrow> params \<Rightarrow> loop_state" where
  "initial_state url ps =
     \<lparr> all_resources = [], total_count = JInt 0, current_url = JStr url,
       current_params = ps, pages_fetched = 0, fhir_bundle = None \<rparr>"

text \<open>The body of the \<open>try\<close> block: the requests it issues, and whether it raises or
  returns.\<close>

definition fetch_try ::
  "transport \<Rightarrow> string \<Rightarrow> FHIRQuery \<Rightarrow> int \<Rightarrow> request list \<times> (py_error + fetch_result)" where
  "fetch_try tr fhir_base_url query max_pages =
     (case initial_params query of
        Inl e \<Rightarrow> ([], Inl e)
      | Inr ps \<Rightarrow>
          fetch_loop tr max_pages
            (initial_state (fhir_base_url @ ''/'' @ resource_type_value (resource_type query)) ps)
            [])"

text \<open>The requests a fetch issues, in order.\<close>

definition fetch_requests :: "transport \<Rightarrow> string \<Rightarrow> FHIRQuery \<Rightarrow> int \<Rightarrow> request list" where
  "fetch_requests tr fhir_base_url query max_pages = fst (fetch_try tr fhir_base_url query max_pages)"

text \<open>The \<open>try\<close> statement: both handlers return the fallback.\<close>

definition fetch_real_fhir_data :: "transport \<Rightarrow> string \<Rightarrow> FHIRQuery \<Rightarrow> int \<Rightarrow> fetch_result" where
  "fetch_real_fhir_data tr fhir_base_url query max_pages =
     (case snd (fetch_try tr fhir_base_url query max_pages) of
        Inr r \<Rightarrow> r
      | Inl e \<Rightarrow>
          if is_request_exception e then generate_fallback_results query
          else generate_fallback_results query)"

subsection \<open>Failing responses\<close>

text \<open>
  The payloads on which the loop body raises, described by their shape. A payload that
  is not a JSON object has no \<open>get\<close>. In a Bundle, the value under \<open>entry\<close> and the
  value under \<open>link\<close> (an empty list when the key is absent) must be iterable: a list,
  an object (its keys are run through) or a string (its characters). An item of the
  entries raises when the test \<open>"resource" in entry\<close> does (a number, a Boolean, null)
  or when the test succeeds on something that is not an object (a list with the
  element \<open>"resource"\<close>, a string containing it). The links are read up to the first
  whose relation is \<open>next\<close>; one of them that is not an object raises.
\<close>

fun not_iterable :: "json \<Rightarrow> bool" where
  "not_iterable (JList xs) = False"
| "not_iterable (JDict kvs) = False"
| "not_iterable (JStr s) = False"
| "not_iterable j = True"

fun iter_items :: "json \<Rightarrow> json list" where
  "iter_items (JList xs) = xs"
| "iter_items (JDict kvs) = map (\<lambda>kv. JStr (fst kv)) kvs"
| "iter_items (JStr s) = map (\<lambda>c. JStr [c]) s"
| "iter_items j = []"

fun is_object :: "json \<Rightarrow> bool" where
  "is_object (JDict kvs) = True"
| "is_object j = False"

definition bad_entry :: "json \<Rightarrow> bool" where
  "bad_entry entry =
     (case entry of
        JDict kvs \<Rightarrow> False
      | JList xs \<Rightarrow> JStr ''resource'' \<in> set xs
      | JStr s \<Rightarrow> is_substring ''resource'' s
      | _ \<Rightarrow> True)"

definition next_relation :: "json \<Rightarrow> bool" where
  "next_relation link =
     (case link of
        JDict kvs \<Rightarrow> map_of kvs ''relation'' = Some (JStr ''next'')
      | _ \<Rightarrow> False)"

fun bad_links :: "json list \<Rightarrow> bool" where
  "bad_links [] = False"
| "bad_links (link # rest) =
     (if is_object link then (if next_relation link then False else bad_links rest)
      else True)"

definition raising_payload :: "json \<Rightarrow> bool" where
  "raising_payload b =
     (case b of
        JDict kvs \<Rightarrow>
          map_of kvs ''resourceType'' = Some (JStr ''Bundle'')
          \<and> (let entries = (case map_of kvs ''entry'' of Some v \<Rightarrow> v | None \<Rightarrow> JList []);
                  links = (case map_of kvs ''link'' of Some v \<Rightarrow> v | None \<Rightarrow> JList [])
              in not_iterable entries \<or> list_ex bad_entry (iter_items entries)
                 \<or> not_iterable links \<or> bad_links (iter_items links))
      | _ \<Rightarrow> True)"

text \<open>A response that makes the fetch fail: the call raised (a transport error, a
  timeout), the status is one \<open>raise_for_status\<close> rejects, the body is not JSON, or the
  payload is one of the above.\<close>

definition response_fails :: "response \<Rightarrow> bool" where
  "response_fails r =
     (case r of
        Raises e \<Rightarrow> True
      | Response status body \<Rightarrow>
          (400 \<le> status \<and> status < 600)
          \<or> (case body of None \<Rightarrow> True | Some b \<Rightarrow> raising_payload b))"

text \<open>
  The shape of a payload as the interface of the remote collection describes it: a
  single record object, or a collection object with \<open>resourceType = "Bundle"\<close> whose
  \<open>entry\<close> is a list of objects, whose \<open>total\<close> is a count and whose \<open>link\<close> is a list
  of objects. A payload of any other shape is malformed.
\<close>

definition expected_shape :: "json \<Rightarrow> bool" where
  "expected_shape b =
     (case b of
        JDict kvs \<Rightarrow>
          (if map_of kvs ''resourceType'' = Some (JStr ''Bundle'') then
             (case map_of kvs ''entry'' of
                None \<Rightarrow> True
              | Some v \<Rightarrow> (case v of JList es \<Rightarrow> list_all is_object es | _ \<Rightarrow> False))
             \<and> (case map_of kvs ''total'' of
                   None \<Rightarrow> True
                 | Some v \<Rightarrow> (case v of JInt n \<Rightarrow> 0 \<le> n | _ \<Rightarrow> False))
             \<and> (case map_of kvs ''link'' of
                   None \<Rightarrow> True
                 | Some v \<Rightarrow> (case v of JList ls \<Rightarrow> list_all is_object ls | _ \<Rightarrow> False))
           else True)
      | _ \<Rightarrow> False)"

section \<open>Example inputs\<close>

text \<open>Entities with nothing but the given age filters.\<close>

definition ents_with_ages :: "age_filter list \<Rightarrow> entities" where
  "ents_with_ages fs =
     \<lparr> conditions = [], age_filters = fs, gender = None, intent = ''search'',
       resource_types = [''Patient''], extracted_numbers = [], extracted_entities = [] \<rparr>"

text \<open>A token with no syntactic children.\<close>

definition mk_token :: "string \<Rightarrow> string \<Rightarrow> string \<Rightarrow> bool \<Rightarrow> token" where
  "mk_token t l p n =
     \<lparr> tok_text = t, tok_lemma = l, tok_pos = p, like_num = n, children = [] \<rparr>"

text \<open>The annotation of \<open>"between 5 and 0"\<close>.\<close>

definition doc_between_5_0 :: doc where
  "doc_between_5_0 =
     \<lparr> tokens = [mk_token ''between'' ''between'' ''ADP'' False,
                  mk_token ''5'' ''5'' ''NUM'' True,
                  mk_token ''and'' ''and'' ''CCONJ'' False,
                  mk_token ''0'' ''0'' ''NUM'' True],
       doc_text = ''between 5 and 0'', ents = [] \<rparr>"


text \<open>The annotation of \<open>"patients with heart disease and asthma"\<close>.\<close>

definition doc_heart_asthma :: doc where
  "doc_heart_asthma =
     \<lparr> tokens = [mk_token ''patients'' ''patient'' ''NOUN'' False,
                  mk_token ''with'' ''with'' ''ADP'' False,
                  mk_token ''heart'' ''heart'' ''NOUN'' False,
                  mk_token ''disease'' ''disease'' ''NOUN'' False,
                  mk_token ''and'' ''and'' ''CCONJ'' False,
                  mk_token ''asthma'' ''asthma'' ''NOUN'' False],
       doc_text = ''patients with heart disease and asthma'', ents = [] \<rparr>"

text \<open>The annotation of \<open>"many patients need care show them"\<close>.\<close>

definition doc_many_need_show :: doc where
  "doc_many_need_show =
     \<lparr> tokens = [mk_token ''many'' ''many'' ''ADJ'' False,
                  mk_token ''patients'' ''patient'' ''NOUN'' False,
                  mk_token ''need'' ''need'' ''VERB'' False,
                  mk_token ''care'' ''care'' ''NOUN'' False,
                  mk_token ''show'' ''show'' ''VERB'' False,
                  mk_token ''them'' ''they'' ''PRON'' False],
       doc_text = ''many patients need care show them'', ents = [] \<rparr>"

text \<open>
  The intent as claim C7 words it: the first token whose lemma is in one of the three
  keyword sets decides, by the set its lemma is in (search before count before
  aggregate); without such a token the phrases of the text decide.
\<close>

definition keyword_intent :: "string \<Rightarrow> string" where
  "keyword_intent l =
     (if l \<in> search_verbs then ''search''
      else if l \<in> count_verbs then ''count''
      else ''aggregate'')"

definition spec_intent :: "doc \<Rightarrow> string" where
  "spec_intent d =
     (case find (\<lambda>t. tok_lemma t \<in> search_verbs \<union> count_verbs \<union> aggregate_verbs)
             (tokens d) of
        Some t \<Rightarrow> keyword_intent (tok_lemma t)
      | None \<Rightarrow> phrase_intent (doc_text d))"

text \<open>
  A collection of five pages, each with one record, linked by \<open>next\<close> relations; the
  server answers by URL. And the same server when the second request of a fetch times
  out.
\<close>

definition page_url :: "nat \<Rightarrow> string" where
  "page_url k = ''http://fhir/page'' @ str_nat k"

definition bundle_page :: "nat \<Rightarrow> json" where
  "bundle_page k =
     JDict [(''resourceType'', JStr ''Bundle''),
            (''total'', JInt 5),
            (''entry'', JList [JDict [(''resource'', JDict [(''id'', JStr (str_nat k))])]]),
            (''link'',
             JList (JDict [(''relation'', JStr ''self''), (''url'', JStr (page_url k))]
                    # (if k < 5
                       then [JDict [(''relation'', JStr ''next''),
                                    (''url'', JStr (page_url (k + 1)))]]
                       else [])))]"

definition five_pages :: transport where
  "five_pages n req =
     (case req of
        Get url ps \<Rightarrow>
          if url = JStr ''http://fhir/Patient'' then Response 200 (Some (bundle_page 1))
          else (case find (\<lambda>k. url = JStr (page_url k)) [2, 3, 4, 5] of
                  Some k \<Rightarrow> Response 200 (Some (bundle_page k))
                | None \<Rightarrow> Response 404 None))"

definition timeout_on_second :: transport where
  "timeout_on_second n req = (if n = 1 then Raises Timeout else five_pages n req)"

text \<open>The same server when the second answer is a Bundle whose \<open>entry\<close> is a number.\<close>

definition broken_bundle :: json where
  "broken_bundle = JDict [(''resourceType'', JStr ''Bundle''), (''entry'', JInt 3)]"

definition broken_on_second :: transport where
  "broken_on_second n req =
     (if n = 1 then Response 200 (Some broken_bundle) else five_pages n req)"

text \<open>A server that answers every request with a Bundle whose \<open>entry\<close> and \<open>total\<close>
  are strings.\<close>

definition garbage_bundle :: json where
  "garbage_bundle =
     JDict [(''resourceType'', JStr ''Bundle''), (''entry'', JStr ''garbage''),
            (''total'', JStr ''x'')]"

definition garbage_server :: transport where
  "garbage_server n req = Response 200 (Some garbage_bundle)"

definition patient_query :: FHIRQuery where
  "patient_query =
     \<lparr> resource_type = PATIENT, parameters = [], q_include = None, q_count = Some 100 \<rparr>"

text \<open>The annotation of \<open>"diabetic patients with diabetes"\<close>.\<close>

definition doc_diabetic_diabetes :: doc where
  "doc_diabetic_diabetes =
     \<lparr> tokens = [mk_token ''diabetic'' ''diabetic'' ''ADJ'' False,
                  mk_token ''patients'' ''patient'' ''NOUN'' False,
                  mk_token ''with'' ''with'' ''ADP'' False,
                  mk_token ''diabetes'' ''diabetes'' ''NOUN'' False],
       doc_text = ''diabetic patients with diabetes'', ents = [] \<rparr>"

text \<open>The numeric mentions of \<open>"between 45 and 30"\<close>.\<close>

definition mentions_45_30 :: "number_info list" where
  "mentions_45_30 =
     [\<lparr> num_value = ''45'', numeric_value = Some 45, num_context = ''between and 30'',
         position = 1, dependencies = [] \<rparr>,
      \<lparr> num_value = ''30'', numeric_value = Some 30, num_context = ''45 and'',
         position = 3, dependencies = [] \<rparr>]"

section \<open>Properties of the query builder\<close>

lemma str_int_examples:
  "str_int 1974 = ''1974''" "str_int 1975 = ''1975''" "str_int 1959 = ''1959''"
  "str_int 1979 = ''1979''" "str_int 1994 = ''1994''"
  by (simp_all add: str_int_def str_nat.simps digit_char_def)

text \<open>
  Claim C2, as stated: the builder takes the reference year as a parameter and does not
  read the wall clock. The code has no such parameter; the year it uses is the one the
  clock shows at the call, so the same entities built in 2024 and in 2025 give different
  queries.
\<close>

theorem build_reads_clock_counterexample:
  "build_fhir_query 2024 (ents_with_ages [Greater 50 ''spacy_context''])
     \<noteq> build_fhir_query 2025 (ents_with_ages [Greater 50 ''spacy_context''])"
  by (simp add: build_fhir_query_def ents_with_ages_def str_int_examples)

text \<open>
  Claim C2, amended: the year read from the clock is the only other input of the
  builder, and when that year is 2024 and the first age filter is greater-than(50),
  whatever the other entities are, the birth-date parameter is \<open>le1974-12-31\<close>.
\<close>

theorem build_birthdate_2024:
  "map_of (parameters (build_fhir_query 2024 (e\<lparr>age_filters := Greater 50 m # later\<rparr>))) ''birthdate''
     = Some (PStr ''le1974-12-31'')"
  by (simp add: build_fhir_query_def Let_def str_int_examples split: option.splits)




text \<open>
  Claim C8: the query built for the intent \<open>count\<close> equals the one built from the same
  entities for the intent \<open>search\<close>: resource type, parameters, include list and page
  size.
\<close>

theorem build_same_for_count_and_search:
  "build_fhir_query y (e\<lparr>intent := ''count''\<rparr>) = build_fhir_query y (e\<lparr>intent := ''search''\<rparr>)"
  by (simp add: build_fhir_query_def)


section \<open>Properties of the entity extractor\<close>

lemma lower_char_idem: "lower_char (lower_char c) = lower_char c"
  by (simp add: lower_char_def Let_def)

lemma lower_idem: "lower (lower s) = lower s"
  by (simp add: lower_def lower_char_idem)

text \<open>
  Claim C10: extraction is case-insensitive. The query is lowercased before it is
  annotated and everything else is computed from the annotated document, so a text and
  its lowercased form give the same entities.
\<close>

theorem extract_entities_case_insensitive:
  "extract_entities nlp explain (lower query) = extract_entities nlp explain query"
  by (simp add: extract_entities_def lower_idem)

lemma intent_scan_without_many:
  "intent_scan False ts =
     map_option (\<lambda>t. keyword_intent (tok_lemma t))
       (find (\<lambda>t. tok_lemma t \<in> search_verbs \<union> count_verbs \<union> aggregate_verbs) ts)"
  by (induction ts) (auto simp: keyword_intent_def)

lemma intent_scan_with_many:
  "intent_scan True ts =
     map_option (\<lambda>t. if tok_lemma t \<in> search_verbs then ''search'' else ''count'')
       (find (\<lambda>t. tok_pos t = ''VERB''
                  \<or> tok_lemma t \<in> search_verbs \<union> count_verbs \<union> aggregate_verbs) ts)"
  by (induction ts) auto

text \<open>
  Claim C7, as stated, fails: in \<open>"many patients need care show them"\<close> the first token
  with a keyword lemma is \<open>show\<close>, a search verb, but the verb \<open>need\<close> comes first and
  the document has the lemma \<open>many\<close>, so the code returns \<open>count\<close>.
\<close>

theorem intent_first_keyword_counterexample:
  "determine_intent_with_spacy doc_many_need_show = ''count''
   \<and> spec_intent doc_many_need_show = ''search''"
  by code_simp

text \<open>
  Claim C7, amended. When no token has the lemma \<open>many\<close>, the intent is as the claim
  states it. When some token has the lemma \<open>many\<close>, the first token that is tagged
  \<open>VERB\<close> or whose lemma is in a keyword set decides: \<open>search\<close> when its lemma is a
  search verb, \<open>count\<close> otherwise; without such a token the phrases of the text decide.
\<close>

theorem determine_intent_characterised:
  "determine_intent_with_spacy d =
     (if ''many'' \<in> set (map tok_lemma (tokens d)) then
        (case find (\<lambda>t. tok_pos t = ''VERB''
                        \<or> tok_lemma t \<in> search_verbs \<union> count_verbs \<union> aggregate_verbs)
                (tokens d) of
           Some t \<Rightarrow> if tok_lemma t \<in> search_verbs then ''search'' else ''count''
         | None \<Rightarrow> phrase_intent (doc_text d))
      else spec_intent d)"
proof (cases "''many'' \<in> set (map tok_lemma (tokens d))")
  case True
  then show ?thesis
    unfolding determine_intent_with_spacy_def
    by (simp only: intent_scan_with_many if_True) (simp split: option.splits)
next
  case False
  then show ?thesis
    unfolding determine_intent_with_spacy_def spec_intent_def
    by (simp only: intent_scan_without_many if_False) (simp split: option.splits)
qed

text \<open>
  Claim C5 at \<open>"patients with heart disease and asthma"\<close>: the token \<open>asthma\<close> equals a
  dictionary term, but for every token the dictionary loop reaches \<open>heart disease\<close>
  first, finds its two words among the lemmas and breaks. The only condition extracted
  is heart disease.
\<close>

theorem conditions_heart_disease_hides_asthma:
  "''asthma'' \<in> set (map tok_lemma (tokens doc_heart_asthma))
   \<and> map_of condition_mappings ''asthma''
       = Some \<lparr> code = ''195967001'', system = ''http://snomed.info/sct'',
                 display = ''Asthma'' \<rparr>
   \<and> map cond_term (extract_conditions_with_spacy doc_heart_asthma) = [''heart disease'']
   \<and> map code (extract_conditions_with_spacy doc_heart_asthma) = [''56265001'']"
  by code_simp

text \<open>
  The filter built from a regex match carries the operator \<open>age_patterns\<close> gives for
  the keyword matched, and for each keyword the pattern can match a filter is built.
\<close>

lemma value_filter_operator: "f \<in> set (value_filter op v m) \<Longrightarrow> operator f = op"
  by (auto simp: value_filter_def split: if_splits)

lemma match_keyword_member: "match_keyword ks s = Some (k, ds) \<Longrightarrow> k \<in> set ks"
  by (induction ks) (auto split: option.splits)

lemma keyword_filter_built:
  "k \<in> set [''over'', ''above'', ''under'', ''below'', ''exactly''] \<Longrightarrow>
     length (value_filter (case map_of age_patterns k of Some op \<Rightarrow> op | None \<Rightarrow> ''>'') v m) = 1"
  by (auto simp: age_patterns_def value_filter_def)

text \<open>
  Claim C6 at \<open>"between 5 and 0"\<close>: the mention \<open>0\<close> has no truthy value, so the context
  loop yields nothing and the regex fallback builds the range from the two groups in
  text order: min = 5 and max = 0.
\<close>

theorem age_range_fallback_keeps_text_order:
  "extract_age_filters_with_spacy doc_between_5_0 (extract_numbers_with_context doc_between_5_0)
     = Inr [AgeRange 5 0 ''regex_fallback'']"
  by code_simp

section \<open>Properties of the result fetcher\<close>

subsection \<open>Failing responses are the ones whose handling raises\<close>

lemma py_iter_items: "py_iter j = (if not_iterable j then Inl TypeError else Inr (iter_items j))"
  by (cases j) simp_all

lemma entry_resource_raises: "isl (entry_resource entry) = bad_entry entry"
  by (cases entry) (simp_all add: entry_resource_def bad_entry_def)

lemma page_resources_raises: "isl (page_resources es) = list_ex bad_entry es"
proof (induction es)
  case Nil
  then show ?case by simp
next
  case (Cons entry es)
  then show ?case
    using entry_resource_raises [of entry]
    by (cases "entry_resource entry"; cases "page_resources es") auto
qed

lemma link_url_cases:
  "link_url link =
     (if is_object link then
        (if next_relation link
         then Inr (Some (case py_get link ''url'' JNull of Inr u \<Rightarrow> u | Inl e \<Rightarrow> JNull))
         else Inr None)
      else Inl AttributeError)"
  by (cases link) (auto simp: link_url_def next_relation_def split: option.splits)

lemma next_link_scan_raises: "isl (next_link_scan ls) = bad_links ls"
  by (induction ls) (simp_all add: link_url_cases)

lemma get_next_link_raises:
  "isl (get_next_link (JDict kvs)) =
     (let links = (case map_of kvs ''link'' of Some v \<Rightarrow> v | None \<Rightarrow> JList [])
      in not_iterable links \<or> bad_links (iter_items links))"
  by (simp add: get_next_link_def py_iter_items next_link_scan_raises Let_def)

lemma process_bundle_raises:
  "(\<exists>e. process_bundle s b = Raise e) = raising_payload b"
proof (cases b)
  case (JDict kvs)
  let ?entries = "case map_of kvs ''entry'' of Some v \<Rightarrow> v | None \<Rightarrow> JList []"
  show ?thesis
  proof (cases "map_of kvs ''resourceType'' = Some (JStr ''Bundle'')")
    case False
    with JDict show ?thesis
      by (auto simp: process_bundle_def raising_payload_def split: option.splits)
  next
    case True
    show ?thesis
    proof (cases "not_iterable ?entries")
      case ni: True
      with JDict True show ?thesis
        by (simp add: process_bundle_def raising_payload_def py_iter_items Let_def)
    next
      case it: False
      show ?thesis
      proof (cases "page_resources (iter_items ?entries)")
        case (Inl e)
        then have "list_ex bad_entry (iter_items ?entries)"
          using page_resources_raises [of "iter_items ?entries"] by simp
        with JDict True it Inl show ?thesis
          by (simp add: process_bundle_def raising_payload_def py_iter_items Let_def)
      next
        case (Inr prs)
        then have ok: "\<not> list_ex bad_entry (iter_items ?entries)"
          using page_resources_raises [of "iter_items ?entries"] by simp
        show ?thesis
        proof (cases "get_next_link (JDict kvs)")
          case l: (Inl e)
          then have "isl (get_next_link (JDict kvs))" by simp
          then have "raising_payload b"
            using JDict True
            by (simp add: get_next_link_raises raising_payload_def Let_def)
          moreover have "process_bundle s b = Raise e"
            using JDict True it Inr l
            by (simp add: process_bundle_def py_iter_items)
          ultimately show ?thesis by blast
        next
          case r: (Inr next_url)
          then have "\<not> isl (get_next_link (JDict kvs))" by simp
          then have "\<not> raising_payload b"
            using JDict True it ok
            by (simp add: get_next_link_raises raising_payload_def Let_def)
          moreover have "\<forall>e. process_bundle s b \<noteq> Raise e"
            using JDict True it Inr r
            by (simp add: process_bundle_def py_iter_items Let_def)
          ultimately show ?thesis by blast
        qed
      qed
    qed
  qed
qed (simp_all add: process_bundle_def raising_payload_def)

lemma response_fails_iff: "response_fails r \<longleftrightarrow> (\<exists>e. handle_response s r = Raise e)"
  by (cases r)
     (auto simp: response_fails_def handle_response_def process_bundle_raises [of s, symmetric]
           split: option.splits)

text \<open>Every payload on which the loop body raises is malformed; the converse fails, as
  \<open>garbage_bundle\<close> shows.\<close>

lemma raising_payload_malformed:
  assumes r: "raising_payload b"
  shows "\<not> expected_shape b"
proof (cases b)
  case (JDict kvs)
  have e: "\<not> list_all is_object es" if "list_ex bad_entry es" for es
    using that by (induction es) (auto simp: bad_entry_def split: json.splits)
  have l: "\<not> list_all is_object ls" if "bad_links ls" for ls
    using that by (induction ls) (auto split: if_splits)
  from r JDict have is_bundle: "map_of kvs ''resourceType'' = Some (JStr ''Bundle'')"
    by (simp add: raising_payload_def)
  let ?entries = "case map_of kvs ''entry'' of Some v \<Rightarrow> v | None \<Rightarrow> JList []"
  let ?links = "case map_of kvs ''link'' of Some v \<Rightarrow> v | None \<Rightarrow> JList []"
  from r JDict have "not_iterable ?entries \<or> list_ex bad_entry (iter_items ?entries)
      \<or> not_iterable ?links \<or> bad_links (iter_items ?links)"
    by (simp add: raising_payload_def Let_def)
  then consider "not_iterable ?entries \<or> list_ex bad_entry (iter_items ?entries)"
    | "not_iterable ?links \<or> bad_links (iter_items ?links)"
    by blast
  then show ?thesis
  proof cases
    case 1
    then have "\<not> (case map_of kvs ''entry'' of
                None \<Rightarrow> True
              | Some v \<Rightarrow> (case v of JList es \<Rightarrow> list_all is_object es | _ \<Rightarrow> False))"
      using e by (auto split: option.splits json.splits)
    with JDict is_bundle show ?thesis by (simp add: expected_shape_def)
  next
    case 2
    then have "\<not> (case map_of kvs ''link'' of
                None \<Rightarrow> True
              | Some v \<Rightarrow> (case v of JList ls \<Rightarrow> list_all is_object ls | _ \<Rightarrow> False))"
      using l by (auto split: option.splits json.splits)
    with JDict is_bundle show ?thesis by (simp add: expected_shape_def)
  qed
qed (simp_all add: expected_shape_def)

subsection \<open>The requests of the loop\<close>

lemma fetch_loop_trace:
  "fetch_loop tr mp s issued = (reqs, res) \<Longrightarrow>
     (\<exists>more. reqs = issued @ more)
     \<and> (\<forall>k. length issued \<le> k \<and> k < length reqs \<and> response_fails (tr k (reqs ! k))
           \<longrightarrow> isl res)"
proof (induction tr mp s issued arbitrary: reqs res rule: fetch_loop.induct)
  case (1 tr mp s issued)
  let ?req = "next_request s"
  let ?st = "handle_response s (tr (length issued) ?req)"
  show ?case
  proof (cases "truthy (current_url s) \<and> pages_fetched s < mp")
    case False
    with "1.prems" show ?thesis
      by (auto simp: fetch_loop.simps [of tr mp s issued])
  next
    case True
    show ?thesis
    proof (cases ?st)
      case (Raise e)
      with True "1.prems" show ?thesis
        by (auto simp: fetch_loop.simps [of tr mp s issued])
    next
      case (Return r)
      then have "\<not> response_fails (tr (length issued) ?req)"
        by (simp add: response_fails_iff [of _ s])
      with Return True "1.prems" show ?thesis
        by (auto simp: fetch_loop.simps [of tr mp s issued] less_Suc_eq_le nth_append)
    next
      case (Break s')
      then have "\<not> response_fails (tr (length issued) ?req)"
        by (simp add: response_fails_iff [of _ s])
      with Break True "1.prems" show ?thesis
        by (auto simp: fetch_loop.simps [of tr mp s issued] less_Suc_eq_le nth_append)
    next
      case (Continue s')
      then have nf: "\<not> response_fails (tr (length issued) ?req)"
        by (simp add: response_fails_iff [of _ s])
      from Continue True "1.prems"
      have rec: "fetch_loop tr mp s' (issued @ [?req]) = (reqs, res)"
        by (simp add: fetch_loop.simps [of tr mp s issued])
      from "1.IH" [OF True Continue rec]
      obtain more where more: "reqs = (issued @ [?req]) @ more"
        and later: "\<forall>k. length (issued @ [?req]) \<le> k \<and> k < length reqs
                      \<and> response_fails (tr k (reqs ! k)) \<longrightarrow> isl res"
        by blast
      have at: "reqs ! length issued = ?req"
        using more by (simp add: nth_append)
      have "isl res"
        if k: "length issued \<le> k" "k < length reqs" "response_fails (tr k (reqs ! k))" for k
      proof (cases "k = length issued")
        case True
        with k(3) at nf show ?thesis by simp
      next
        case False
        with k(1) have "length (issued @ [?req]) \<le> k" by simp
        with later k(2,3) show ?thesis by blast
      qed
      with more show ?thesis by auto
    qed
  qed
qed

lemma fetch_loop_bound:
  "length (fst (fetch_loop tr mp s issued)) \<le> length issued + nat (mp - pages_fetched s)"
proof (induction tr mp s issued rule: fetch_loop.induct)
  case (1 tr mp s issued)
  show ?case
  proof (cases "truthy (current_url s) \<and> pages_fetched s < mp")
    case False
    then show ?thesis by (auto simp: fetch_loop.simps [of tr mp s issued])
  next
    case True
    show ?thesis
    proof (cases "handle_response s (tr (length issued) (next_request s))")
      case (Continue s')
      have pf: "pages_fetched s' = pages_fetched s + 1"
        using Continue by (rule handle_response_Continue)
      from True have "Suc (nat (mp - (pages_fetched s + 1))) = nat (mp - pages_fetched s)"
        by arith
      with "1.IH" [OF True Continue] pf
      have "length (fst (fetch_loop tr mp s' (issued @ [next_request s])))
              \<le> length issued + nat (mp - pages_fetched s)"
        by simp
      with True Continue show ?thesis
        by (simp add: fetch_loop.simps [of tr mp s issued])
    qed (use True in \<open>auto simp: fetch_loop.simps [of tr mp s issued]\<close>)
  qed
qed

lemma fetch_requests_bound: "length (fetch_requests tr base q mp) \<le> nat mp"
proof (cases "initial_params q")
  case (Inl e)
  then show ?thesis by (simp add: fetch_requests_def fetch_try_def)
next
  case (Inr ps)
  then show ?thesis
    using fetch_loop_bound
            [of tr mp "initial_state (base @ ''/'' @ resource_type_value (resource_type q)) ps" "[]"]
    by (simp add: fetch_requests_def fetch_try_def initial_state_def)
qed

subsection \<open>The fallback\<close>

lemma fallback_fields:
  "res_total (generate_fallback_results q) = JInt 0"
  "resources (generate_fallback_results q) = []"
  "error (generate_fallback_results q) \<noteq> None"
  by (simp_all add: generate_fallback_results_def)

lemma fetch_raises_fallback:
  "snd (fetch_try tr base q mp) = Inl e \<Longrightarrow>
     fetch_real_fhir_data tr base q mp = generate_fallback_results q"
  by (simp add: fetch_real_fhir_data_def)

lemma handle_response_no_error:
  "handle_response s r = Return x \<Longrightarrow> error x = None"
  by (auto simp: handle_response_def process_bundle_def single_resource_def Let_def
           split: response.splits option.splits sum.splits if_splits)

lemma finish_no_error: "finish s = Inr x \<Longrightarrow> error x = None"
  by (auto simp: finish_def split: option.splits)

lemma fetch_loop_no_error:
  "snd (fetch_loop tr mp s issued) = Inr x \<Longrightarrow> error x = None"
proof (induction tr mp s issued rule: fetch_loop.induct)
  case (1 tr mp s issued)
  show ?case
  proof (cases "truthy (current_url s) \<and> pages_fetched s < mp")
    case False
    with "1.prems" show ?thesis
      by (auto simp: fetch_loop.simps [of tr mp s issued] dest: finish_no_error)
  next
    case True
    show ?thesis
    proof (cases "handle_response s (tr (length issued) (next_request s))")
      case (Continue s')
      with True "1.prems" "1.IH" [OF True Continue] show ?thesis
        by (simp add: fetch_loop.simps [of tr mp s issued])
    qed (use True "1.prems" in
          \<open>auto simp: fetch_loop.simps [of tr mp s issued]
                dest: finish_no_error handle_response_no_error\<close>)
  qed
qed

lemma fetch_try_no_error:
  "snd (fetch_try tr base q mp) = Inr x \<Longrightarrow> error x = None"
  by (auto simp: fetch_try_def split: sum.splits dest: fetch_loop_no_error)

lemma fetch_error_is_fallback:
  "error (fetch_real_fhir_data tr base q mp) \<noteq> None \<Longrightarrow>
     fetch_real_fhir_data tr base q mp = generate_fallback_results q"
  by (cases "snd (fetch_try tr base q mp)")
     (auto simp: fetch_real_fhir_data_def dest: fetch_try_no_error)

lemma fetch_failing_response_raises:
  assumes "k < length (fetch_requests tr base q mp)"
    and "response_fails (tr k (fetch_requests tr base q mp ! k))"
  shows "isl (snd (fetch_try tr base q mp))"
proof (cases "initial_params q")
  case (Inl e)
  with assms(1) show ?thesis by (simp add: fetch_requests_def fetch_try_def)
next
  case (Inr ps)
  let ?s = "initial_state (base @ ''/'' @ resource_type_value (resource_type q)) ps"
  have eq: "fetch_try tr base q mp = fetch_loop tr mp ?s []"
    using Inr by (simp add: fetch_try_def)
  obtain reqs res where lr: "fetch_loop tr mp ?s [] = (reqs, res)"
    by (cases "fetch_loop tr mp ?s []")
  from fetch_loop_trace [OF lr] assms eq lr show ?thesis
    by (auto simp: fetch_requests_def)
qed

text \<open>
  Claim C1, as stated, fails for a malformed payload on which nothing raises. A Bundle
  whose \<open>entry\<close> and \<open>total\<close> are strings is not of the expected shape, yet the loop
  runs through the characters of \<open>entry\<close>, finds no resource, takes the string as the
  total and returns a result without the error marker.
\<close>

theorem fetch_unexpected_shape_counterexample:
  "\<not> expected_shape garbage_bundle
   \<and> error (fetch_real_fhir_data garbage_server ''http://fhir'' patient_query 3) = None
   \<and> res_total (fetch_real_fhir_data garbage_server ''http://fhir'' patient_query 3) = JStr ''x''
   \<and> fetch_real_fhir_data garbage_server ''http://fhir'' patient_query 3
       \<noteq> generate_fallback_results patient_query"
  by code_simp

text \<open>
  Claim C1, amended. \<open>fetch_real_fhir_data\<close> returns a result on every input. Whenever
  the response to one of the requests it issues fails (the call raises, as on a
  transport error or a timeout; the status is an error status; the body is not JSON;
  the payload is one on which the loop body raises: not an object, or a Bundle whose
  entries or links are not iterable or hold an item the loop cannot read), and whenever
  the body of the \<open>try\<close> block raises for any other reason, the result is the fallback,
  whose total is 0, whose resource sequence is empty and whose error marker is set. And
  in every result with the error marker set, the total is 0 and the resource sequence
  is empty. Nothing is said of a malformed payload on which the loop body does not
  raise.
\<close>

theorem fetch_failure_gives_fallback:
  "(\<forall>k. k < length (fetch_requests tr base q mp)
         \<and> response_fails (tr k (fetch_requests tr base q mp ! k))
       \<longrightarrow> fetch_real_fhir_data tr base q mp = generate_fallback_results q)
   \<and> (\<forall>e. snd (fetch_try tr base q mp) = Inl e
       \<longrightarrow> fetch_real_fhir_data tr base q mp = generate_fallback_results q)
   \<and> res_total (generate_fallback_results q) = JInt 0
   \<and> resources (generate_fallback_results q) = []
   \<and> error (generate_fallback_results q) \<noteq> None
   \<and> (error (fetch_real_fhir_data tr base q mp) \<noteq> None
       \<longrightarrow> res_total (fetch_real_fhir_data tr base q mp) = JInt 0
           \<and> resources (fetch_real_fhir_data tr base q mp) = [])"
proof -
  have "fetch_real_fhir_data tr base q mp = generate_fallback_results q"
    if "k < length (fetch_requests tr base q mp)"
      and "response_fails (tr k (fetch_requests tr base q mp ! k))" for k
  proof -
    from that have "isl (snd (fetch_try tr base q mp))"
      by (rule fetch_failing_response_raises)
    then obtain e where "snd (fetch_try tr base q mp) = Inl e"
      by (cases "snd (fetch_try tr base q mp)") auto
    then show ?thesis by (rule fetch_raises_fallback)
  qed
  moreover have "res_total (fetch_real_fhir_data tr base q mp) = JInt 0
      \<and> resources (fetch_real_fhir_data tr base q mp) = []"
    if "error (fetch_real_fhir_data tr base q mp) \<noteq> None"
    using fetch_error_is_fallback [OF that] by (simp add: fallback_fields)
  ultimately show ?thesis
    by (auto simp: fallback_fields dest: fetch_raises_fallback)
qed

lemma timeout_on_second_run:
  "fetch_requests timeout_on_second ''http://fhir'' patient_query 3
     = [Get (JStr ''http://fhir/Patient'') (Some [(''_count'', PInt 50)]),
        Get (JStr ''http://fhir/page2'') None]"
  "snd (fetch_try timeout_on_second ''http://fhir'' patient_query 3) = Inl Timeout"
  "response_fails (timeout_on_second 1 (Get (JStr ''http://fhir/page2'') None))"
  by code_simp+

lemma broken_on_second_run:
  "fetch_requests broken_on_second ''http://fhir'' patient_query 3
     = [Get (JStr ''http://fhir/Patient'') (Some [(''_count'', PInt 50)]),
        Get (JStr ''http://fhir/page2'') None]"
  "raising_payload broken_bundle"
  "response_fails (broken_on_second 1 (Get (JStr ''http://fhir/page2'') None))"
  by code_simp+

theorem fetch_failure_gives_fallback_witness:
  "response_fails
     (timeout_on_second 1 (fetch_requests timeout_on_second ''http://fhir'' patient_query 3 ! 1))
   \<and> snd (fetch_try timeout_on_second ''http://fhir'' patient_query 3) = Inl Timeout
   \<and> fetch_real_fhir_data timeout_on_second ''http://fhir'' patient_query 3
       = generate_fallback_results patient_query
   \<and> error (fetch_real_fhir_data timeout_on_second ''http://fhir'' patient_query 3) \<noteq> None
   \<and> res_total (fetch_real_fhir_data timeout_on_second ''http://fhir'' patient_query 3) = JInt 0
   \<and> resources (fetch_real_fhir_data timeout_on_second ''http://fhir'' patient_query 3) = []
   \<and> response_fails
       (broken_on_second 1 (fetch_requests broken_on_second ''http://fhir'' patient_query 3 ! 1))
   \<and> fetch_real_fhir_data broken_on_second ''http://fhir'' patient_query 3
       = generate_fallback_results patient_query"
proof -
  note main = fetch_failure_gives_fallback
                [of timeout_on_second "''http://fhir''" patient_query 3]
  have k: "(1::nat) < length (fetch_requests timeout_on_second ''http://fhir'' patient_query 3)"
    and f: "response_fails (timeout_on_second 1
              (fetch_requests timeout_on_second ''http://fhir'' patient_query 3 ! 1))"
    using timeout_on_second_run(3) by (simp_all add: timeout_on_second_run(1))
  from main k f
  have fb: "fetch_real_fhir_data timeout_on_second ''http://fhir'' patient_query 3
          = generate_fallback_results patient_query"
    by blast
  from main have "error (generate_fallback_results patient_query) \<noteq> None"
    by blast
  with fb have e: "error (fetch_real_fhir_data timeout_on_second ''http://fhir'' patient_query 3)
          \<noteq> None"
    by simp
  with main have t: "res_total (fetch_real_fhir_data timeout_on_second ''http://fhir'' patient_query 3)
            = JInt 0
      \<and> resources (fetch_real_fhir_data timeout_on_second ''http://fhir'' patient_query 3) = []"
    by blast
  have k': "(1::nat) < length (fetch_requests broken_on_second ''http://fhir'' patient_query 3)"
    and f': "response_fails (broken_on_second 1
              (fetch_requests broken_on_second ''http://fhir'' patient_query 3 ! 1))"
    using broken_on_second_run(3) by (simp_all add: broken_on_second_run(1))
  from fetch_failure_gives_fallback [of broken_on_second "''http://fhir''" patient_query 3] k' f'
  have fb': "fetch_real_fhir_data broken_on_second ''http://fhir'' patient_query 3
          = generate_fallback_results patient_query"
    by blast
  from f fb e t f' fb' timeout_on_second_run(2) show ?thesis
    by blast
qed

text \<open>
  Claim C3 at \<open>max_pages = 3\<close> on the collection of five linked pages: three requests
  are issued (the first with the parameters, the next two to the continuation URLs
  alone) and the fetch returns without error, but the \<open>pages_fetched\<close> entry of the
  result is 4. The loop counts a page when it follows its \<open>next\<close> link, and the return
  adds one for the page on which the loop stopped; when the loop stops on the bound,
  that page has been counted already.
\<close>

theorem fetch_five_pages_reports_four:
  "fetch_requests five_pages ''http://fhir'' patient_query 3
     = [Get (JStr ''http://fhir/Patient'') (Some [(''_count'', PInt 50)]),
        Get (JStr ''http://fhir/page2'') None,
        Get (JStr ''http://fhir/page3'') None]
   \<and> error (fetch_real_fhir_data five_pages ''http://fhir'' patient_query 3) = None
   \<and> length (resources (fetch_real_fhir_data five_pages ''http://fhir'' patient_query 3)) = 3
   \<and> res_pages_fetched (fetch_real_fhir_data five_pages ''http://fhir'' patient_query 3) = Some 4"
  by code_simp

section \<open>Further properties\<close>

subsection \<open>Deduplication of conditions\<close>

lemma remove_duplicates_codes:
  "code ` set (remove_duplicates seen cs) = code ` set cs - seen"
  by (induction cs arbitrary: seen) auto

lemma remove_duplicates_unseen:
  "c \<in> set (remove_duplicates seen cs) \<Longrightarrow> code c \<notin> seen"
  using remove_duplicates_codes [of seen cs] by blast

lemma remove_duplicates_distinct: "distinct (map code (remove_duplicates seen cs))"
proof (induction cs arbitrary: seen)
  case Nil
  then show ?case by simp
next
  case (Cons a cs)
  have "code a \<notin> code ` set (remove_duplicates (insert (code a) seen) cs)"
    by (simp add: remove_duplicates_codes)
  with Cons.IH show ?case by simp
qed

lemma remove_duplicates_subseq: "subseq (remove_duplicates seen cs) cs"
  by (induction cs arbitrary: seen) auto

lemma remove_duplicates_first:
  "c \<in> set (remove_duplicates seen cs) \<Longrightarrow> find (\<lambda>x. code x = code c) cs = Some c"
proof (induction cs arbitrary: seen)
  case Nil
  then show ?case by simp
next
  case (Cons a cs)
  show ?case
  proof (cases "code a \<in> seen")
    case True
    with Cons.prems have In: "c \<in> set (remove_duplicates seen cs)" by simp
    from remove_duplicates_unseen [OF In] True have "code a \<noteq> code c" by auto
    with Cons.IH [OF In] show ?thesis by simp
  next
    case False
    show ?thesis
    proof (cases "c = a")
      case True
      then show ?thesis by simp
    next
      case ne: False
      with False Cons.prems
      have In: "c \<in> set (remove_duplicates (insert (code a) seen) cs)" by simp
      from remove_duplicates_unseen [OF In] have "code a \<noteq> code c" by auto
      with Cons.IH [OF In] show ?thesis by simp
    qed
  qed
qed

text \<open>
  The conditions extracted are the matches found, in the order found, with one
  condition per code: the codes are pairwise distinct, every code matched is kept, and
  the condition kept for a code is the first match with that code.
\<close>

theorem extract_conditions_first_per_code:
  "distinct (map code (extract_conditions_with_spacy d))
   \<and> subseq (extract_conditions_with_spacy d) (all_condition_matches d)
   \<and> set (map code (extract_conditions_with_spacy d)) = set (map code (all_condition_matches d))
   \<and> (\<forall>c \<in> set (extract_conditions_with_spacy d).
         find (\<lambda>x. code x = code c) (all_condition_matches d) = Some c)"
  by (simp add: extract_conditions_with_spacy_def remove_duplicates_distinct
        remove_duplicates_subseq remove_duplicates_codes remove_duplicates_first)

lemma diabetic_diabetes_run:
  "map cond_term (all_condition_matches doc_diabetic_diabetes) = [''diabetic'', ''diabetes'']"
  "map code (all_condition_matches doc_diabetic_diabetes) = [''44054006'', ''44054006'']"
  "extract_conditions_with_spacy doc_diabetic_diabetes
     = [make_condition ''diabetic''
          \<lparr> code = ''44054006'', system = ''http://snomed.info/sct'',
            display = ''Diabetes mellitus'' \<rparr> ''spacy_lemma'']"
  by code_simp+

theorem extract_conditions_first_per_code_witness:
  "make_condition ''diabetic''
       \<lparr> code = ''44054006'', system = ''http://snomed.info/sct'',
         display = ''Diabetes mellitus'' \<rparr> ''spacy_lemma''
     \<in> set (extract_conditions_with_spacy doc_diabetic_diabetes)
   \<and> find (\<lambda>x. code x = ''44054006'') (all_condition_matches doc_diabetic_diabetes)
       = Some (make_condition ''diabetic''
                 \<lparr> code = ''44054006'', system = ''http://snomed.info/sct'',
                   display = ''Diabetes mellitus'' \<rparr> ''spacy_lemma'')
   \<and> length (extract_conditions_with_spacy doc_diabetic_diabetes) = 1"
proof -
  let ?c = "make_condition ''diabetic''
       \<lparr> code = ''44054006'', system = ''http://snomed.info/sct'',
         display = ''Diabetes mellitus'' \<rparr> ''spacy_lemma''"
  have In: "?c \<in> set (extract_conditions_with_spacy doc_diabetic_diabetes)"
    by (simp add: diabetic_diabetes_run(3))
  have c: "code ?c = ''44054006''"
    by (simp add: make_condition_def)
  from extract_conditions_first_per_code [of doc_diabetic_diabetes] In
  have "find (\<lambda>x. code x = code ?c) (all_condition_matches doc_diabetic_diabetes) = Some ?c"
    by blast
  with In show ?thesis
    by (simp add: c diabetic_diabetes_run(3))
qed

subsection \<open>Ranges from the context of a numeric mention\<close>

text \<open>
  A range filter that the context loop builds for a mention has as its bounds the
  smaller and the larger of the mention's value and the value of another mention, so
  its minimum is at most its maximum.
\<close>

theorem context_range_ordered:
  assumes "AgeRange lo hi m \<in> set (context_filter numbers_with_context number_info)"
  shows "lo \<le> hi \<and> m = ''spacy_context_range''
         \<and> (\<exists>v w other_number.
               numeric_value number_info = Some v
               \<and> other_number \<in> set numbers_with_context
               \<and> other_number \<noteq> number_info
               \<and> numeric_value other_number = Some w
               \<and> lo = min v w \<and> hi = max v w)"
proof -
  let ?P = "\<lambda>other_number. other_number \<noteq> number_info
                \<and> truthy_int (numeric_value other_number)"
  from assms obtain v where v: "numeric_value number_info = Some v"
    by (cases "numeric_value number_info") (simp_all add: context_filter_def)
  show ?thesis
  proof (cases "find ?P numbers_with_context")
    case None
    from assms show ?thesis
      by (simp only: context_filter_def v None option.case Let_def) (simp split: if_splits)
  next
    case (Some other_number)
    then have other: "other_number \<in> set numbers_with_context" "other_number \<noteq> number_info"
      by (auto simp: find_Some_iff)
    show ?thesis
    proof (cases "numeric_value other_number")
      case None
      from assms show ?thesis
        by (simp only: context_filter_def v Some None option.case Let_def)
           (simp split: if_splits)
    next
      case w: (Some w)
      from assms
      have "lo = min v w \<and> hi = max v w \<and> m = ''spacy_context_range''"
        by (simp only: context_filter_def v Some w option.case Let_def)
           (simp split: if_splits)
      with v w other show ?thesis by auto
    qed
  qed
qed

theorem context_range_ordered_witness:
  "AgeRange 30 45 ''spacy_context_range'' \<in> set (context_filter mentions_45_30 (hd mentions_45_30))
   \<and> (30::int) \<le> 45"
proof -
  have In: "AgeRange 30 45 ''spacy_context_range''
              \<in> set (context_filter mentions_45_30 (hd mentions_45_30))"
    by code_simp
  from context_range_ordered [OF In] In show ?thesis by blast
qed

subsection \<open>The pagination bound\<close>

text \<open>
  The loop of \<open>fetch_real_fhir_data\<close> terminates (\<open>fetch_loop\<close> is a total function)
  and a fetch issues at most \<open>max_pages\<close> requests, none when \<open>max_pages\<close> is not
  positive.
\<close>

theorem fetch_issues_at_most_max_pages:
  "length (fetch_requests tr base q max_pages) \<le> nat max_pages"
  by (rule fetch_requests_bound)

end
